theory Spec2Isabelle
  imports Complex_Main "HOL-Library.Log_Nat"
begin

section \<open>Images and geometry utilities\<close>

text \<open>
  An image is a numpy array of shape (height, width, channels). It is modelled with its
  shape written out and its pixels as a list of rows. In the two crops the products of an
  image dimension with the constants 0.25, 0.75 and 0.8 are written as exact rationals:
  0.25 and 0.75 are dyadic, so these products are exact in binary floating point, and for
  0.8 the rounded product truncates to the same integer as the exact one for every
  dimension an image can have.
\<close>

type_synonym pixel = "nat \<times> nat \<times> nat"

record ndarray =
  height :: nat
  width :: nat
  rows :: "pixel list list"

definition wf_img :: "ndarray \<Rightarrow> bool" where
  "wf_img img \<longleftrightarrow> length (rows img) = height img \<and> list_all (\<lambda>r. length r = width img) (rows img)"

text \<open>Python's \<open>int()\<close> on a float truncates towards zero.\<close>

definition py_int :: "rat \<Rightarrow> int" where
  "py_int q = (if q < 0 then \<lceil>q\<rceil> else \<lfloor>q\<rfloor>)"

text \<open>The slice \<open>a[lo:hi]\<close> for indices that are not negative.\<close>

definition slice :: "nat \<Rightarrow> nat \<Rightarrow> 'a list \<Rightarrow> 'a list" where
  "slice lo hi xs = take (hi - lo) (drop lo xs)"

definition crop_vertically :: "ndarray \<Rightarrow> ndarray" where
  "crop_vertically img =
     (let cropped_height = nat (py_int (of_nat (height img) * (8 / 10)))
      in img\<lparr>height := min cropped_height (height img),
             rows := take cropped_height (rows img)\<rparr>)"

definition crop_horizontally :: "ndarray \<Rightarrow> ndarray" where
  "crop_horizontally img =
     (let xmin = nat (py_int (of_nat (width img) * (25 / 100)));
          xmax = nat (py_int (of_nat (width img) * (75 / 100)))
      in img\<lparr>width := min xmax (width img) - min xmin (width img),
             rows := map (slice xmin xmax) (rows img)\<rparr>)"

type_synonym xxyy = "int \<times> int \<times> int \<times> int"

text \<open>
  The keep fraction of the box mapping is a parameter, so there the float arithmetic is
  modelled as it is: a Python float is a binary64 number, given by the rational it
  stands for, and every operation rounds its exact result to 53 significant bits, to the
  nearest and on a tie to the even one. \<open>ilog2 q\<close> is the exponent e of a positive q,
  with \<open>2 powi e \<le> q < 2 powi (e + 1)\<close>. The exponent range is not bounded: overflow
  and subnormal numbers are not modelled.
\<close>

definition round_even :: "rat \<Rightarrow> int" where
  "round_even q =
     (let f = \<lfloor>q\<rfloor>; d = q - of_int f
      in if d < 1 / 2 then f else if 1 / 2 < d then f + 1 else if even f then f else f + 1)"

definition ilog2 :: "rat \<Rightarrow> int" where
  "ilog2 q = (if 1 \<le> q then bitlen \<lfloor>q\<rfloor> - 1 else - bitlen (\<lceil>1 / q\<rceil> - 1))"

definition round_double :: "rat \<Rightarrow> rat" where
  "round_double q =
     (if q = 0 then 0
      else let u = 2 powi (ilog2 \<bar>q\<bar> - 52) in of_int (round_even (q / u)) * u)"

text \<open>
  \<open>transform_xxyy_for_cropped_img\<close>: \<open>keep_horizontal\<close> is a float; the width and the
  x-coordinates are integers, converted to floats where they meet one. The y-coordinates
  stay integers.
\<close>

definition transform_xxyy_for_cropped_img :: "ndarray \<Rightarrow> xxyy \<Rightarrow> rat \<Rightarrow> xxyy" where
  "transform_xxyy_for_cropped_img full_img b keep_horizontal =
     (case b of (x_min, x_max, y_min, y_max) \<Rightarrow>
        let full_width = width full_img;
            x_off = round_double
                      (round_double (round_double (of_nat full_width) * round_double (1 - keep_horizontal))
                       / 2);
            y_off = (0::int)
        in (py_int (round_double (round_double (of_int x_min) + x_off)),
            py_int (round_double (round_double (of_int x_max) + x_off)),
            y_min + y_off, y_max + y_off))"


section \<open>Passenger states, errors and the world\<close>

datatype PassengerState = AWAKE | SLEEPING | NOTTHERE

fun name_lower :: "PassengerState \<Rightarrow> string" where
  "name_lower AWAKE = ''awake''"
| "name_lower SLEEPING = ''sleeping''"
| "name_lower NOTTHERE = ''notthere''"

datatype error = AssertionError string | TypeError string

text \<open>
  The argument of \<open>classify\<close> is a path or an array; an array is a reference to a buffer
  of the heap. The world holds the buffers (every address holds one, the addresses below
  \<open>next_free\<close> are in use), the files written so far, the directories that exist and the
  number of identifiers handed out by \<open>uuid.uuid1\<close>.
\<close>

datatype img_or_path = Path string | Array nat

record world =
  heap :: "nat \<Rightarrow> ndarray"
  next_free :: nat
  files :: "(string \<times> ndarray) list"
  dirs :: "string list"
  uuid_count :: nat

text \<open>
  The library functions the pipelines call and the empty-seat detector, whose code is
  outside the pipeline module, are parameters. The drawing functions of cv2 work in place
  and keep the shape of the buffer: each is given as the function that repaints the pixel
  at a row and a column.
\<close>

type_synonym painter = "nat \<Rightarrow> nat \<Rightarrow> pixel \<Rightarrow> pixel"

record env =
  cv2_imread :: "string \<Rightarrow> ndarray option"
  Image_open :: "string \<Rightarrow> ndarray"
  empty_preprocessor :: "ndarray \<Rightarrow> ndarray"
  pixdiff_is_empty :: "ndarray \<Rightarrow> rat \<Rightarrow> ndarray \<Rightarrow> bool"
  AVGMAP :: ndarray
  cv2_rectangle :: "int \<times> int \<Rightarrow> int \<times> int \<Rightarrow> pixel \<Rightarrow> nat \<Rightarrow> painter"
  cv2_putText :: "string \<Rightarrow> int \<times> int \<Rightarrow> nat \<Rightarrow> rat \<Rightarrow> pixel \<Rightarrow> nat \<Rightarrow> nat \<Rightarrow> painter"
  uuid1 :: "nat \<Rightarrow> string"

definition newline :: char where
  "newline = CHR 0x0A"

fun str_of_nat :: "nat \<Rightarrow> string" where
  "str_of_nat n =
     (if n < 10 then [''0123456789'' ! n]
      else str_of_nat (n div 10) @ [''0123456789'' ! (n mod 10)])"

definition str_of_int :: "int \<Rightarrow> string" where
  "str_of_int i = (if i < 0 then ''-'' @ str_of_nat (nat (- i)) else str_of_nat (nat i))"

text \<open>\<open>text.split(c)\<close>: the pieces between the separators, one more than there are separators.\<close>

fun split :: "char \<Rightarrow> string \<Rightarrow> string list" where
  "split c [] = [[]]"
| "split c (x # xs) =
     (if x = c then [] # split c xs
      else (case split c xs of [] \<Rightarrow> [[x]] | l # ls \<Rightarrow> (x # l) # ls))"

section \<open>Stages of the full pipeline\<close>

type_synonym hand_result = "nat \<times> string \<times> rat \<times> int \<times> int \<times> int \<times> int"

text \<open>
  The models of a pipeline are its fields. \<open>face_model\<close> stands for
  \<open>facedetect.detect\<close> with the loaded face model, \<open>eye_model\<close> for \<open>eye.detect\<close>,
  \<open>eye_classifier\<close> for the label of greatest log-probability that the classifier gives a
  resized region, and \<open>hand_model\<close> for the detections of \<open>hand_model.inference\<close>.
\<close>

record FullPipeline =
  face_model :: "ndarray \<Rightarrow> bool \<times> ndarray option \<times> xxyy option"
  eye_model :: "ndarray option \<Rightarrow> rat \<Rightarrow> ndarray list \<times> xxyy list"
  eye_classifier :: "ndarray \<Rightarrow> nat"
  hand_model :: "ndarray \<Rightarrow> hand_result list"
  eye_model_confidence :: rat

definition detect_hands :: "ndarray \<Rightarrow> (ndarray \<Rightarrow> hand_result list) \<Rightarrow> bool \<times> xxyy list" where
  "detect_hands img hm =
     (let results = hm img;
          hand_count = length results;
          hand_xxyy = map (\<lambda>(id, name, confidence, x, y, w, h). (x, x + w, y, y + h)) results
      in if hand_count = 0 then (False, hand_xxyy) else (True, hand_xxyy))"

definition open_eye_classify :: "ndarray list \<Rightarrow> (ndarray \<Rightarrow> nat) \<Rightarrow> nat list" where
  "open_eye_classify eye_regions ec = map ec eye_regions"

text \<open>Python's \<open>any\<close> on a list of integers: some element is not zero.\<close>

definition any :: "nat list \<Rightarrow> bool" where
  "any ls = list_ex (\<lambda>l. l \<noteq> 0) ls"

section \<open>The visualizer\<close>

text \<open>
  \<open>visualize\<close> copies the original image into a new buffer and draws on the copy: the
  face box, the eye boxes moved by the corner of the face box, the hand boxes mapped to the
  full image, and the trace line by line. Indexing an absent face box for an eye box raises
  a type error. The copy is then put to the right of the original and the result written
  to the directory \<open>full_pipeline_eval\<close>; \<open>cv2.imwrite\<close> writes nothing, and raises
  nothing, when the directory does not exist.
\<close>

definition paint :: "painter \<Rightarrow> ndarray \<Rightarrow> ndarray" where
  "paint f img =
     img\<lparr>rows := map (\<lambda>(i, r). map (\<lambda>(j, p). f i j p) (enumerate 0 r)) (enumerate 0 (rows img))\<rparr>"

definition draw :: "nat \<Rightarrow> painter \<Rightarrow> world \<Rightarrow> world" where
  "draw a f w = w\<lparr>heap := (heap w)(a := paint f (heap w a))\<rparr>"

definition hstack :: "ndarray \<Rightarrow> ndarray \<Rightarrow> ndarray" where
  "hstack a b = \<lparr>height = height a, width = width a + width b, rows = map2 (@) (rows a) (rows b)\<rparr>"

definition imwrite :: "string \<Rightarrow> ndarray \<Rightarrow> world \<Rightarrow> world" where
  "imwrite output_file img w =
     (if ''full_pipeline_eval'' \<in> set (dirs w) then w\<lparr>files := (output_file, img) # files w\<rparr> else w)"

definition visualize ::
  "env \<Rightarrow> nat \<Rightarrow> xxyy option \<Rightarrow> xxyy list \<Rightarrow> xxyy list \<Rightarrow> string \<Rightarrow> string \<Rightarrow> world
     \<Rightarrow> (error + unit) \<times> world" where
  "visualize e original_img face_xxyy eyes_xxyy hands_xxyy label txt w =
     (let img_with_boxes = next_free w;
          w1 = w\<lparr>heap := (heap w)(img_with_boxes := heap w original_img),
                 next_free := Suc (next_free w)\<rparr>;
          w2 = (case face_xxyy of
                  None \<Rightarrow> w1
                | Some (f0, f1, f2, f3) \<Rightarrow>
                    draw img_with_boxes (cv2_rectangle e (f0, f2) (f1, f3) (0, 255, 0) 2) w1)
      in case (face_xxyy, eyes_xxyy) of
           (None, _ # _) \<Rightarrow> (Inl (TypeError ''NoneType object is not subscriptable''), w2)
         | _ \<Rightarrow>
          (let w3 = fold (\<lambda>(e0, e1, e2, e3) v.
                       (case face_xxyy of
                          None \<Rightarrow> v
                        | Some (f0, f1, f2, f3) \<Rightarrow>
                            draw img_with_boxes
                              (cv2_rectangle e (e0 + f0, e2 + f2) (e1 + f0, e3 + f2) (0, 0, 255) 2) v))
                     eyes_xxyy w2;
               w4 = fold (\<lambda>hand_xxyy v.
                       (case transform_xxyy_for_cropped_img (heap v original_img) hand_xxyy (1 / 2) of
                          (h0, h1, h2, h3) \<Rightarrow>
                            draw img_with_boxes (cv2_rectangle e (h0, h2) (h1, h3) (255, 0, 0) 2) v))
                     hands_xxyy w3;
               lines = split newline txt;
               w5 = fold (\<lambda>(i, line) v.
                       draw img_with_boxes
                         (cv2_putText e line (20, 15 + int i * 20) 0 (1 / 2) (0, 0, 0) 1 16) v)
                     (enumerate 0 lines) w4;
               combined_img = hstack (heap w5 original_img) (heap w5 img_with_boxes);
               output_file = ''full_pipeline_eval/'' @ label @ ''_'' @ uuid1 e (uuid_count w5) @ ''.jpg'';
               w6 = w5\<lparr>uuid_count := Suc (uuid_count w5)\<rparr>
           in (Inr (), imwrite output_file combined_img w6)))"

section \<open>The pipelines\<close>

text \<open>
  Reading the image: a path is decoded by \<open>cv2.imread\<close>, which gives \<open>None\<close> when the
  file cannot be decoded, into a new buffer; an array is used as it is.
\<close>

definition read_image :: "env \<Rightarrow> img_or_path \<Rightarrow> world \<Rightarrow> nat option \<times> world" where
  "read_image e img_or_path w =
     (case img_or_path of
        Path p \<Rightarrow>
          (case cv2_imread e p of
             None \<Rightarrow> (None, w)
           | Some buf \<Rightarrow>
               (Some (next_free w),
                w\<lparr>heap := (heap w)(next_free w := buf), next_free := Suc (next_free w)\<rparr>))
      | Array a \<Rightarrow> (Some a, w))"

definition seat_is_empty :: "env \<Rightarrow> img_or_path \<Rightarrow> ndarray \<Rightarrow> bool" where
  "seat_is_empty e img_or_path img =
     (let proc_for_empty =
            (case img_or_path of
               Path p \<Rightarrow> empty_preprocessor e (Image_open e p)
             | Array a \<Rightarrow> empty_preprocessor e img)
      in pixdiff_is_empty e proc_for_empty (8 / 100) (AVGMAP e))"

text \<open>
  \<open>FullPipeline.classify\<close>. An omitted \<open>viz\<close> is \<open>None\<close> and takes the default of the
  signature. Each stage gives the state, the trace, and whether the method returns there.
  The models are taken to answer every call: an exception of a model is not modelled.
\<close>

definition FullPipeline_classify ::
  "env \<Rightarrow> FullPipeline \<Rightarrow> img_or_path \<Rightarrow> bool option \<Rightarrow> world
     \<Rightarrow> (error + PassengerState) \<times> world" where
  "FullPipeline_classify e P img_or_path viz_arg w =
     (let viz = (case viz_arg of None \<Rightarrow> False | Some v \<Rightarrow> v);
          state0 = SLEEPING;
          s0 = []
      in case read_image e img_or_path w of
           (None, w1) \<Rightarrow> (Inl (AssertionError ''Could not load the image.''), w1)
         | (Some img, w1) \<Rightarrow>
     (let seat_empty = seat_is_empty e img_or_path (heap w1 img);
          state1 = (if seat_empty then NOTTHERE else state0)
      in if seat_empty \<and> \<not> viz then (Inr state1, w1) else
     (let s1 = (if viz then s0 @ ''Seat is not empty.'' @ [newline] else s0);
          (face_detected, faceImg, face_xxyy) = face_model P (heap w1 img);
          (state3, s3, eye_xxyy, returns3) =
            (if face_detected then
               (let s2 = (if viz then s1 @ ''Face detected.'' @ [newline] else s1);
                    (eye_regions, eye_xxyy) = eye_model P faceImg (eye_model_confidence P)
                in if length eye_regions > 0 then
                     (let s2a = (if viz then s2 @ str_of_nat (length eye_regions)
                                       @ '' eye/s detected.'' @ [newline] else s2);
                          eye_labels = open_eye_classify eye_regions (eye_classifier P)
                      in if any eye_labels then
                           (AWAKE,
                            (if viz then s2a @ str_of_nat (sum_list eye_labels) @ '' open. ''
                                  @ str_of_int (int (length eye_labels) - int (sum_list eye_labels))
                                  @ '' closed. '' @ [newline] else s2a),
                            eye_xxyy, \<not> viz)
                         else (state1, (if viz then s2a @ ''All eyes closed.'' @ [newline] else s2a),
                               eye_xxyy, False))
                   else (state1, (if viz then s2 @ ''No eyes detected.'' @ [newline] else s2),
                         eye_xxyy, False))
             else (state1, s1, [], False))
      in if returns3 then (Inr state3, w1) else
     (let croppedImg = crop_horizontally (crop_vertically (heap w1 img));
          (hands_detected, hands_xxyy) = detect_hands croppedImg (hand_model P);
          state4 = (if hands_detected then AWAKE else state3);
          s4 = (if hands_detected
                then (if viz then s3 @ ''Hand/s detected in cropped image.'' @ [newline] else s3)
                else (if viz then s3 @ ''No hands detected in cropped image.'' @ [newline] else s3))
      in if hands_detected \<and> \<not> viz then (Inr state4, w1)
         else if viz then
           (case visualize e img face_xxyy eye_xxyy hands_xxyy (name_lower state4) s4 w1 of
              (Inl err, w2) \<Rightarrow> (Inl err, w2)
            | (Inr u, w2) \<Rightarrow> (Inr state4, w2))
         else (Inr state4, w1)))))"

text \<open>
  \<open>NoEyePipeline\<close> replaces the constructor and so has two models only;
  \<open>face_classification\<close> stands for \<open>smallface.classify\<close> with the loaded classifier.
\<close>

record NoEyePipeline =
  face_detection :: "ndarray \<Rightarrow> bool \<times> ndarray option \<times> xxyy option"
  face_classification :: "ndarray option \<Rightarrow> nat"

definition NoEyePipeline_classify ::
  "env \<Rightarrow> NoEyePipeline \<Rightarrow> img_or_path \<Rightarrow> bool option \<Rightarrow> world
     \<Rightarrow> (error + PassengerState) \<times> world" where
  "NoEyePipeline_classify e P img_or_path viz_arg w =
     (let viz = (case viz_arg of None \<Rightarrow> True | Some v \<Rightarrow> v);
          state0 = SLEEPING;
          s0 = []
      in case read_image e img_or_path w of
           (None, w1) \<Rightarrow> (Inl (AssertionError ''Could not load the image.''), w1)
         | (Some img, w1) \<Rightarrow>
     (let seat_empty = seat_is_empty e img_or_path (heap w1 img);
          state1 = (if seat_empty then NOTTHERE else state0)
      in if seat_empty \<and> \<not> viz then (Inr state1, w1) else
     (let s1 = (if viz then s0 @ ''Seat is not empty.'' @ [newline] else s0);
          (face_detected, faceImg, face_xxyy) = face_detection P (heap w1 img);
          (state3, s3, returns3) =
            (if face_detected then
               (let s2 = (if viz then s1 @ ''Face detected.'' @ [newline] else s1);
                    res = face_classification P faceImg
                in if res = 0 then
                     (AWAKE, (if \<not> viz then s2 else s2 @ ''Face classified as awake.'' @ [newline]),
                      \<not> viz)
                   else
                     (SLEEPING, (if \<not> viz then s2 else s2 @ ''Face classified as sleeping.'' @ [newline]),
                      \<not> viz))
             else (state1, s1, False))
      in if returns3 then (Inr state3, w1)
         else if viz then
           (case visualize e img face_xxyy [] [] (name_lower state3) s3 w1 of
              (Inl err, w2) \<Rightarrow> (Inl err, w2)
            | (Inr u, w2) \<Rightarrow> (Inr state3, w2))
         else (Inr state3, w1))))"

section \<open>Auxiliary definitions for the proofs\<close>

text \<open>
  Two worlds that differ at most in the buffer at one address, and the world after the
  drawing loops of \<open>visualize\<close> (the copy is the buffer allocated last).
\<close>

definition same_except :: "nat \<Rightarrow> world \<Rightarrow> world \<Rightarrow> bool" where
  "same_except a w w' \<longleftrightarrow>
     (\<forall>b. b \<noteq> a \<longrightarrow> heap w' b = heap w b) \<and> next_free w' = next_free w \<and>
     files w' = files w \<and> dirs w' = dirs w \<and> uuid_count w' = uuid_count w"

definition boxes_drawn ::
  "env \<Rightarrow> nat \<Rightarrow> xxyy option \<Rightarrow> xxyy list \<Rightarrow> xxyy list \<Rightarrow> string \<Rightarrow> world \<Rightarrow> world" where
  "boxes_drawn e original_img face_xxyy eyes_xxyy hands_xxyy txt w1 =
     (let img_with_boxes = next_free w1 - 1;
          w2 = (case face_xxyy of
                  None \<Rightarrow> w1
                | Some (f0, f1, f2, f3) \<Rightarrow>
                    draw img_with_boxes (cv2_rectangle e (f0, f2) (f1, f3) (0, 255, 0) 2) w1);
          w3 = fold (\<lambda>(e0, e1, e2, e3) v.
                       (case face_xxyy of
                          None \<Rightarrow> v
                        | Some (f0, f1, f2, f3) \<Rightarrow>
                            draw img_with_boxes
                              (cv2_rectangle e (e0 + f0, e2 + f2) (e1 + f0, e3 + f2) (0, 0, 255) 2) v))
                     eyes_xxyy w2;
          w4 = fold (\<lambda>hand_xxyy v.
                       (case transform_xxyy_for_cropped_img (heap v original_img) hand_xxyy (1 / 2) of
                          (h0, h1, h2, h3) \<Rightarrow>
                            draw img_with_boxes (cv2_rectangle e (h0, h2) (h1, h3) (255, 0, 0) 2) v))
                     hands_xxyy w3
      in fold (\<lambda>(i, line) v.
                 draw img_with_boxes
                   (cv2_putText e line (20, 15 + int i * 20) 0 (1 / 2) (0, 0, 0) 1 16) v)
              (enumerate 0 (split newline txt)) w4)"

text \<open>Concrete images, adapters and a world, on which the theorems are instantiated.\<close>

definition img100 :: ndarray where
  "img100 = \<lparr>height = 100, width = 100, rows = replicate 100 (replicate 100 (0, 0, 0))\<rparr>"

definition small_img :: ndarray where
  "small_img = \<lparr>height = 2, width = 4,
                 rows = [[(1, 1, 1), (2, 2, 2), (3, 3, 3), (4, 4, 4)],
                         [(5, 5, 5), (6, 6, 6), (7, 7, 7), (8, 8, 8)]]\<rparr>"

definition six_img :: ndarray where
  "six_img = \<lparr>height = 1, width = 6, rows = [replicate 6 (0, 0, 0)]\<rparr>"

definition demo_env :: "bool \<Rightarrow> env" where
  "demo_env seat_empty =
     \<lparr>cv2_imread = (\<lambda>p. if p = ''seat.jpg'' then Some small_img else None),
      Image_open = (\<lambda>p. small_img),
      empty_preprocessor = (\<lambda>i. i),
      pixdiff_is_empty = (\<lambda>i t m. seat_empty),
      AVGMAP = small_img,
      cv2_rectangle = (\<lambda>(x1, y1) (x2, y2) c t i j p.
         if x1 \<le> int j \<and> int j \<le> x2 \<and> y1 \<le> int i \<and> int i \<le> y2 then c else p),
      cv2_putText = (\<lambda>line org font fontScale c t lt i j p. p),
      uuid1 = str_of_nat\<rparr>"

definition demo_world :: world where
  "demo_world = \<lparr>heap = (\<lambda>a. small_img), next_free = 1, files = [],
                  dirs = [''full_pipeline_eval''], uuid_count = 0\<rparr>"

definition open_eye_pipeline :: FullPipeline where
  "open_eye_pipeline =
     \<lparr>face_model = (\<lambda>i. (True, Some small_img, Some (0, 2, 0, 1))),
      eye_model = (\<lambda>f c. ([six_img, small_img], [(0, 1, 0, 1), (1, 2, 0, 1)])),
      eye_classifier = (\<lambda>r. if r = small_img then 1 else 0),
      hand_model = (\<lambda>i. []),
      eye_model_confidence = 1 / 2\<rparr>"

definition hands_pipeline :: FullPipeline where
  "hands_pipeline =
     \<lparr>face_model = (\<lambda>i. (False, None, None)),
      eye_model = (\<lambda>f c. ([], [])),
      eye_classifier = (\<lambda>r. 0),
      hand_model = (\<lambda>i. [(0, ''hand'', 9 / 10, 0, 0, 1, 1)]),
      eye_model_confidence = 1 / 2\<rparr>"

definition no_hands_pipeline :: FullPipeline where
  "no_hands_pipeline = hands_pipeline\<lparr>hand_model := (\<lambda>i. [])\<rparr>"

definition awake_face_pipeline :: NoEyePipeline where
  "awake_face_pipeline =
     \<lparr>face_detection = (\<lambda>i. (True, Some small_img, Some (0, 2, 0, 1))),
      face_classification = (\<lambda>f. 0)\<rparr>"

definition sleeping_face_pipeline :: NoEyePipeline where
  "sleeping_face_pipeline = awake_face_pipeline\<lparr>face_classification := (\<lambda>f. 1)\<rparr>"

definition no_face_pipeline :: NoEyePipeline where
  "no_face_pipeline =
     \<lparr>face_detection = (\<lambda>i. (False, None, None)),
      face_classification = (\<lambda>f. 1)\<rparr>"

section \<open>Cropping\<close>


lemma py_int_of_int: "py_int (of_int z) = z"
  by (simp add: py_int_def)

lemma py_int_quarter: "py_int (of_nat n * (25 / 100)) = int (n div 4)"
proof -
  have "(of_nat n * (25 / 100) :: rat) = of_nat n / of_nat 4" by simp
  then have "\<lfloor>of_nat n * (25 / 100) :: rat\<rfloor> = int (n div 4)"
    by (simp only: floor_divide_of_nat_eq)
  then show ?thesis by (simp add: py_int_def)
qed

lemma py_int_three_quarters: "py_int (of_nat n * (75 / 100)) = int ((3 * n) div 4)"
proof -
  have "(of_nat n * (75 / 100) :: rat) = of_nat (3 * n) / of_nat 4" by simp
  then have "\<lfloor>of_nat n * (75 / 100) :: rat\<rfloor> = int ((3 * n) div 4)"
    by (simp only: floor_divide_of_nat_eq)
  then show ?thesis by (simp add: py_int_def)
qed

lemma py_int_four_fifths: "py_int (of_nat n * (8 / 10)) = int ((4 * n) div 5)"
proof -
  have "(of_nat n * (8 / 10) :: rat) = of_nat (4 * n) / of_nat 5" by simp
  then have "\<lfloor>of_nat n * (8 / 10) :: rat\<rfloor> = int ((4 * n) div 5)"
    by (simp only: floor_divide_of_nat_eq)
  then show ?thesis by (simp add: py_int_def)
qed

lemma crop_vertically_eq:
  "crop_vertically img =
     img\<lparr>height := (4 * height img) div 5, rows := take ((4 * height img) div 5) (rows img)\<rparr>"
  unfolding crop_vertically_def py_int_four_fifths by (simp add: Let_def min_def)

lemma crop_horizontally_eq:
  "crop_horizontally img =
     img\<lparr>width := (3 * width img) div 4 - width img div 4,
         rows := map (\<lambda>r. take ((3 * width img) div 4 - width img div 4) (drop (width img div 4) r))
                   (rows img)\<rparr>"
proof -
  have "min ((3 * width img) div 4) (width img) = (3 * width img) div 4" by simp
  moreover have "min (width img div 4) (width img) = width img div 4" by simp
  ultimately show ?thesis
    unfolding crop_horizontally_def py_int_quarter py_int_three_quarters
    by (simp add: Let_def slice_def)
qed

lemma wf_crop_vertically: "wf_img img \<Longrightarrow> wf_img (crop_vertically img)"
  by (auto simp: crop_vertically_eq wf_img_def list_all_iff dest: in_set_takeD)

lemma wf_crop_horizontally: "wf_img img \<Longrightarrow> wf_img (crop_horizontally img)"
  by (auto simp: crop_horizontally_eq wf_img_def list_all_iff)

lemma crop_horizontally_pixel:
  assumes "wf_img img" "i < height img" "j < width (crop_horizontally img)"
  shows "rows (crop_horizontally img) ! i ! j = rows img ! i ! (width img div 4 + j)"
  using assms by (simp add: crop_horizontally_eq wf_img_def list_all_length)

lemma hand_window:
  "rows (crop_horizontally (crop_vertically img)) =
     map (\<lambda>r. take ((3 * width img) div 4 - width img div 4) (drop (width img div 4) r))
       (take ((4 * height img) div 5) (rows img))"
  by (simp add: crop_horizontally_eq crop_vertically_eq)

text \<open>
  C8. On an image of width 100 \<open>crop_horizontally\<close> keeps the columns 25 to 74 of every
  row: the result has width 50 and the same height, and its pixel at column j is the
  pixel at column 25 + j of the input. On an image of height 100 \<open>crop_vertically\<close>
  keeps the rows 0 to 79: the result has height 80 and the same width. Both are functions
  of the image alone.
\<close>

theorem crop_100:
  "(width img = 100 \<longrightarrow>
      width (crop_horizontally img) = 50 \<and> height (crop_horizontally img) = height img \<and>
      rows (crop_horizontally img) = map (\<lambda>r. take 50 (drop 25 r)) (rows img) \<and>
      (wf_img img \<longrightarrow> wf_img (crop_horizontally img) \<and>
         (\<forall>i < height img. \<forall>j < 50. rows (crop_horizontally img) ! i ! j = rows img ! i ! (25 + j)))) \<and>
   (height img = 100 \<longrightarrow>
      height (crop_vertically img) = 80 \<and> width (crop_vertically img) = width img \<and>
      rows (crop_vertically img) = take 80 (rows img) \<and>
      (wf_img img \<longrightarrow> wf_img (crop_vertically img) \<and>
         (\<forall>i < 80. rows (crop_vertically img) ! i = rows img ! i)))"
proof (intro conjI impI)
  assume w: "width img = 100"
  show "width (crop_horizontally img) = 50" using w by (simp add: crop_horizontally_eq)
  show "height (crop_horizontally img) = height img" by (simp add: crop_horizontally_eq)
  show "rows (crop_horizontally img) = map (\<lambda>r. take 50 (drop 25 r)) (rows img)"
    using w by (simp add: crop_horizontally_eq)
  assume wf: "wf_img img"
  show "wf_img (crop_horizontally img)" using wf by (rule wf_crop_horizontally)
  show "\<forall>i < height img. \<forall>j < 50. rows (crop_horizontally img) ! i ! j = rows img ! i ! (25 + j)"
    using crop_horizontally_pixel [OF wf] w by (simp add: crop_horizontally_eq)
next
  assume h: "height img = 100"
  show "height (crop_vertically img) = 80" using h by (simp add: crop_vertically_eq)
  show "width (crop_vertically img) = width img" by (simp add: crop_vertically_eq)
  show "rows (crop_vertically img) = take 80 (rows img)" using h by (simp add: crop_vertically_eq)
  assume wf: "wf_img img"
  show "wf_img (crop_vertically img)" using wf by (rule wf_crop_vertically)
  show "\<forall>i < 80. rows (crop_vertically img) ! i = rows img ! i"
    using h by (simp add: crop_vertically_eq)
qed

theorem crop_100_witness:
  "width img100 = 100 \<and> height img100 = 100 \<and> wf_img img100 \<and>
   width (crop_horizontally img100) = 50 \<and> height (crop_horizontally img100) = 100 \<and>
   rows (crop_horizontally img100) = replicate 100 (replicate 50 (0, 0, 0)) \<and>
   height (crop_vertically img100) = 80 \<and> width (crop_vertically img100) = 100 \<and>
   rows (crop_vertically img100) = replicate 80 (replicate 100 (0, 0, 0))"
  using crop_100 [of img100] by (simp add: img100_def wf_img_def list_all_iff)

section \<open>Mapping a box of the cropped image to the full image\<close>



lemma ilog2_less:
  assumes "0 < q"
  shows "q < 2 powi (ilog2 q + 1)"
proof (cases "1 \<le> q")
  case True
  then have pos: "0 < \<lfloor>q\<rfloor>" by linarith
  then have "\<lfloor>q\<rfloor> < 2 ^ nat (bitlen \<lfloor>q\<rfloor>)" using bitlen_bounds by blast
  then have "\<lfloor>q\<rfloor> + 1 \<le> 2 ^ nat (bitlen \<lfloor>q\<rfloor>)" by simp
  then have "of_int (\<lfloor>q\<rfloor> + 1) \<le> (of_int (2 ^ nat (bitlen \<lfloor>q\<rfloor>)) :: rat)"
    by (simp only: of_int_le_iff)
  moreover have "q < of_int (\<lfloor>q\<rfloor> + 1)" by linarith
  ultimately have "q < (of_int (2 ^ nat (bitlen \<lfloor>q\<rfloor>)) :: rat)" by (rule less_le_trans [rotated])
  then have "q < 2 ^ nat (bitlen \<lfloor>q\<rfloor>)" by simp
  moreover have "(2::rat) powi (bitlen \<lfloor>q\<rfloor> - 1 + 1) = 2 ^ nat (bitlen \<lfloor>q\<rfloor>)"
    using bitlen_nonneg [of "\<lfloor>q\<rfloor>"] by (simp add: power_int_nonneg_exp)
  ultimately show ?thesis using True by (simp add: ilog2_def)
next
  case False
  let ?c = "\<lceil>1 / q\<rceil> - 1"
  have r: "1 < 1 / q" using False assms by simp
  then have pos: "0 < ?c" by linarith
  then have b: "2 ^ nat (bitlen ?c - 1) \<le> ?c" using bitlen_bounds by blast
  have ge: "1 \<le> bitlen ?c" using pos by (auto simp: bitlen_alt_def)
  have "(of_int (2 ^ nat (bitlen ?c - 1)) :: rat) \<le> of_int ?c" using b by (simp only: of_int_le_iff)
  moreover have "of_int ?c < 1 / q" by linarith
  ultimately have "(of_int (2 ^ nat (bitlen ?c - 1)) :: rat) < 1 / q" by (rule le_less_trans)
  then have "2 ^ nat (bitlen ?c - 1) < 1 / q" by simp
  then have "q < 1 / 2 ^ nat (bitlen ?c - 1)" using assms by (simp add: field_simps)
  moreover have "(2::rat) powi (- bitlen ?c + 1) = 1 / 2 ^ nat (bitlen ?c - 1)"
  proof -
    have "(2::rat) powi (- bitlen ?c + 1) = 2 powi (- (bitlen ?c - 1))" by simp
    also have "\<dots> = 1 / 2 powi (bitlen ?c - 1)" by (rule power_int_minus_divide)
    also have "\<dots> = 1 / 2 ^ nat (bitlen ?c - 1)" using ge by (simp add: power_int_nonneg_exp)
    finally show ?thesis .
  qed
  ultimately show ?thesis using False by (simp add: ilog2_def)
qed










section \<open>The visualizer draws on a copy\<close>

lemma same_except_refl: "same_except a w w"
  by (simp add: same_except_def)

lemma same_except_trans: "same_except a w w' \<Longrightarrow> same_except a w' w'' \<Longrightarrow> same_except a w w''"
  by (simp add: same_except_def)

lemma same_except_draw: "same_except a w (draw a f w)"
  by (simp add: same_except_def draw_def)

lemma same_except_fold:
  assumes "\<And>x v. same_except a v (f x v)"
  shows "same_except a w (fold f xs w)"
proof (induction xs arbitrary: w)
  case Nil
  show ?case by (simp add: same_except_refl)
next
  case (Cons x xs)
  have "same_except a w (f x w)" by (rule assms)
  moreover have "same_except a (f x w) (fold f xs (f x w))" by (rule Cons.IH)
  ultimately show ?case by (auto intro: same_except_trans)
qed

lemma same_except_boxes_drawn:
  "same_except (next_free w1 - 1) w1 (boxes_drawn e original_img face_xxyy eyes_xxyy hands_xxyy trace w1)"
  unfolding boxes_drawn_def Let_def
  apply (rule same_except_trans [OF _ same_except_fold])
   apply (rule same_except_trans [OF _ same_except_fold])
    apply (rule same_except_trans [OF _ same_except_fold])
     apply (auto simp: same_except_refl same_except_draw split: option.splits prod.splits)
  done

lemma visualize_eq:
  "visualize e original_img face_xxyy eyes_xxyy hands_xxyy label trace w =
     (let w1 = w\<lparr>heap := (heap w)(next_free w := heap w original_img),
                 next_free := Suc (next_free w)\<rparr>
      in if face_xxyy = None \<and> eyes_xxyy \<noteq> []
         then (Inl (TypeError ''NoneType object is not subscriptable''), w1)
         else (let w5 = boxes_drawn e original_img face_xxyy eyes_xxyy hands_xxyy trace w1
               in (Inr (), imwrite (''full_pipeline_eval/'' @ label @ ''_'' @ uuid1 e (uuid_count w5) @ ''.jpg'')
                      (hstack (heap w5 original_img) (heap w5 (next_free w)))
                      (w5\<lparr>uuid_count := Suc (uuid_count w5)\<rparr>))))"
  by (cases face_xxyy; cases eyes_xxyy)
     (simp_all add: visualize_def boxes_drawn_def Let_def split: prod.splits)

lemma boxes_drawn_copy:
  "same_except (next_free w)
     (w\<lparr>heap := (heap w)(next_free w := heap w original_img), next_free := Suc (next_free w)\<rparr>)
     (boxes_drawn e original_img face_xxyy eyes_xxyy hands_xxyy trace
        (w\<lparr>heap := (heap w)(next_free w := heap w original_img), next_free := Suc (next_free w)\<rparr>))"
  using same_except_boxes_drawn
    [of "w\<lparr>heap := (heap w)(next_free w := heap w original_img), next_free := Suc (next_free w)\<rparr>"
        e original_img face_xxyy eyes_xxyy hands_xxyy trace]
  by simp

lemma visualize_frame:
  assumes "visualize e original_img face_xxyy eyes_xxyy hands_xxyy label trace w = (r, w')"
  shows "(\<forall>b. b \<noteq> next_free w \<longrightarrow> heap w' b = heap w b) \<and> dirs w' = dirs w"
proof -
  let ?w1 = "w\<lparr>heap := (heap w)(next_free w := heap w original_img), next_free := Suc (next_free w)\<rparr>"
  let ?w5 = "boxes_drawn e original_img face_xxyy eyes_xxyy hands_xxyy trace ?w1"
  have se: "same_except (next_free w) ?w1 ?w5" by (rule boxes_drawn_copy)
  show ?thesis
  proof (cases "face_xxyy = None \<and> eyes_xxyy \<noteq> []")
    case True
    then have "w' = ?w1" using assms by (simp add: visualize_eq Let_def)
    then show ?thesis by simp
  next
    case False
    then have "w' = imwrite (''full_pipeline_eval/'' @ label @ ''_'' @ uuid1 e (uuid_count ?w5) @ ''.jpg'')
                      (hstack (heap ?w5 original_img) (heap ?w5 (next_free w)))
                      (?w5\<lparr>uuid_count := Suc (uuid_count ?w5)\<rparr>)"
      using assms by (auto simp: visualize_eq Let_def)
    then show ?thesis using se by (simp add: imwrite_def same_except_def)
  qed
qed

lemma visualize_files:
  assumes "visualize e original_img face_xxyy eyes_xxyy hands_xxyy label trace w = (r, w')"
    and "original_img < next_free w"
  shows "files w' = files w \<or>
     (\<exists>painted. files w' = (''full_pipeline_eval/'' @ label @ ''_'' @ uuid1 e (uuid_count w) @ ''.jpg'',
              hstack (heap w original_img) painted) # files w)"
proof -
  let ?w1 = "w\<lparr>heap := (heap w)(next_free w := heap w original_img), next_free := Suc (next_free w)\<rparr>"
  let ?w5 = "boxes_drawn e original_img face_xxyy eyes_xxyy hands_xxyy trace ?w1"
  have se: "same_except (next_free w) ?w1 ?w5" by (rule boxes_drawn_copy)
  have orig: "heap ?w5 original_img = heap w original_img"
    using se assms(2) by (simp add: same_except_def)
  show ?thesis
  proof (cases "face_xxyy = None \<and> eyes_xxyy \<noteq> []")
    case True
    then have "w' = ?w1" using assms(1) by (simp add: visualize_eq Let_def)
    then show ?thesis by simp
  next
    case False
    then have "w' = imwrite (''full_pipeline_eval/'' @ label @ ''_'' @ uuid1 e (uuid_count ?w5) @ ''.jpg'')
                      (hstack (heap ?w5 original_img) (heap ?w5 (next_free w)))
                      (?w5\<lparr>uuid_count := Suc (uuid_count ?w5)\<rparr>)"
      using assms(1) by (auto simp: visualize_eq Let_def)
    moreover have "uuid_count ?w5 = uuid_count w" "files ?w5 = files w"
      using se by (simp_all add: same_except_def)
    ultimately show ?thesis using orig by (auto simp: imwrite_def)
  qed
qed

lemma visualize_writes:
  assumes "face_xxyy \<noteq> None \<or> eyes_xxyy = []" and "''full_pipeline_eval'' \<in> set (dirs w)"
  shows "length (files (snd (visualize e original_img face_xxyy eyes_xxyy hands_xxyy label trace w)))
           = Suc (length (files w))"
proof -
  let ?w1 = "w\<lparr>heap := (heap w)(next_free w := heap w original_img), next_free := Suc (next_free w)\<rparr>"
  let ?w5 = "boxes_drawn e original_img face_xxyy eyes_xxyy hands_xxyy trace ?w1"
  have "same_except (next_free w) ?w1 ?w5" by (rule boxes_drawn_copy)
  then have "dirs ?w5 = dirs w" "files ?w5 = files w" by (simp_all add: same_except_def)
  then show ?thesis using assms by (auto simp: visualize_eq Let_def imwrite_def)
qed

lemma visualize_writes_one:
  assumes "face_xxyy \<noteq> None \<or> eyes_xxyy = []" and "''full_pipeline_eval'' \<in> set (dirs w)"
  shows "\<exists>f. files (snd (visualize e original_img face_xxyy eyes_xxyy hands_xxyy label trace w))
           = f # files w"
proof -
  let ?w1 = "w\<lparr>heap := (heap w)(next_free w := heap w original_img), next_free := Suc (next_free w)\<rparr>"
  let ?w5 = "boxes_drawn e original_img face_xxyy eyes_xxyy hands_xxyy trace ?w1"
  have "same_except (next_free w) ?w1 ?w5" by (rule boxes_drawn_copy)
  then have "dirs ?w5 = dirs w" "files ?w5 = files w" by (simp_all add: same_except_def)
  then show ?thesis using assms by (auto simp: visualize_eq Let_def imwrite_def)
qed

lemma visualize_no_dir:
  assumes "''full_pipeline_eval'' \<notin> set (dirs w)"
  shows "files (snd (visualize e original_img face_xxyy eyes_xxyy hands_xxyy label trace w)) = files w"
proof -
  let ?w1 = "w\<lparr>heap := (heap w)(next_free w := heap w original_img), next_free := Suc (next_free w)\<rparr>"
  let ?w5 = "boxes_drawn e original_img face_xxyy eyes_xxyy hands_xxyy trace ?w1"
  have "same_except (next_free w) ?w1 ?w5" by (rule boxes_drawn_copy)
  then have "dirs ?w5 = dirs w" "files ?w5 = files w" by (simp_all add: same_except_def)
  then show ?thesis using assms by (auto simp: visualize_eq Let_def imwrite_def)
qed

lemma visualize_returns:
  "face_xxyy \<noteq> None \<or> eyes_xxyy = [] \<Longrightarrow>
   fst (visualize e original_img face_xxyy eyes_xxyy hands_xxyy label trace w) = Inr ()"
  by (auto simp: visualize_eq Let_def)

lemma case_visualize_returns:
  "face_xxyy \<noteq> None \<or> eyes_xxyy = [] \<Longrightarrow>
   fst (case visualize e original_img face_xxyy eyes_xxyy hands_xxyy label trace w of
          (Inl err, w2) \<Rightarrow> (Inl err, w2)
        | (Inr u, w2) \<Rightarrow> (Inr st, w2)) = Inr st"
  using visualize_returns [of face_xxyy eyes_xxyy e original_img hands_xxyy label trace w]
  by (auto split: prod.splits sum.splits)

lemma snd_case_visualize:
  "snd (case visualize e original_img face_xxyy eyes_xxyy hands_xxyy label trace w of
          (Inl err, w2) \<Rightarrow> (Inl err, w2)
        | (Inr u, w2) \<Rightarrow> (Inr st, w2)) =
   snd (visualize e original_img face_xxyy eyes_xxyy hands_xxyy label trace w)"
  by (auto split: prod.splits sum.splits)

text \<open>
  C10. Whatever the face box, the eye boxes, the hand boxes, the label and the trace are,
  \<open>visualize\<close> leaves the buffer of the original image as it was, and with it every
  buffer that existed before the call: the rectangles and the text go to a copy. The only
  effect outside the heap is at most one new file, named by the label and a fresh
  identifier, whose left half is the original image; no directory is made or removed.
\<close>

theorem visualize_keeps_original:
  assumes "original_img < next_free w"
  shows "heap (snd (visualize e original_img face_xxyy eyes_xxyy hands_xxyy label trace w)) original_img
           = heap w original_img \<and>
         (\<forall>b < next_free w.
            heap (snd (visualize e original_img face_xxyy eyes_xxyy hands_xxyy label trace w)) b = heap w b) \<and>
         (files (snd (visualize e original_img face_xxyy eyes_xxyy hands_xxyy label trace w)) = files w \<or>
          (\<exists>painted. files (snd (visualize e original_img face_xxyy eyes_xxyy hands_xxyy label trace w)) =
             (''full_pipeline_eval/'' @ label @ ''_'' @ uuid1 e (uuid_count w) @ ''.jpg'',
              hstack (heap w original_img) painted) # files w)) \<and>
         dirs (snd (visualize e original_img face_xxyy eyes_xxyy hands_xxyy label trace w)) = dirs w"
proof -
  obtain r w' where v: "visualize e original_img face_xxyy eyes_xxyy hands_xxyy label trace w = (r, w')"
    by (cases "visualize e original_img face_xxyy eyes_xxyy hands_xxyy label trace w")
  have fr: "(\<forall>b. b \<noteq> next_free w \<longrightarrow> heap w' b = heap w b) \<and> dirs w' = dirs w"
    using v by (rule visualize_frame)
  have fl: "files w' = files w \<or>
     (\<exists>painted. files w' = (''full_pipeline_eval/'' @ label @ ''_'' @ uuid1 e (uuid_count w) @ ''.jpg'',
              hstack (heap w original_img) painted) # files w)"
    using v assms by (rule visualize_files)
  from fr fl assms show ?thesis by (simp add: v)
qed

theorem visualize_keeps_original_witness:
  "0 < next_free demo_world \<and>
   heap (snd (visualize (demo_env False) 0 (Some (0, 2, 0, 1)) [(0, 1, 0, 1)] [(0, 1, 0, 1)]
                ''awake'' ''Face detected.'' demo_world)) 0 = small_img"
  using visualize_keeps_original [of 0 demo_world "demo_env False" "Some (0, 2, 0, 1)" "[(0, 1, 0, 1)]"
      "[(0, 1, 0, 1)]" "''awake''" "''Face detected.''"]
  by (simp add: demo_world_def)

section \<open>Decisions of the pipelines\<close>

lemma any_iff: "any ls \<longleftrightarrow> (\<exists>l \<in> set ls. l \<noteq> 0)"
  by (simp add: any_def list_ex_iff)

lemma read_image_files: "read_image e x w = (r, w1) \<Longrightarrow> files w1 = files w"
  by (auto simp: read_image_def split: img_or_path.splits option.splits)

lemma read_image_dirs: "read_image e x w = (r, w1) \<Longrightarrow> dirs w1 = dirs w"
  by (auto simp: read_image_def split: img_or_path.splits option.splits)

text \<open>
  C3. In the full pipeline, on a seat that is not empty, with a detected face and its
  box, if one of the detected eye regions is classified as open (label 1) then
  \<open>classify\<close> returns AWAKE, with or without \<open>viz\<close>, whatever the labels of the other
  regions are. The labels are those of the classifier applied to each region, and the
  rule that one open eye suffices is \<open>any\<close>, evaluated by \<open>classify\<close> on that list.
\<close>

theorem full_any_open_eye:
  assumes "read_image e x w = (Some a, w1)"
    and "\<not> seat_is_empty e x (heap w1 a)"
    and "face_model P (heap w1 a) = (True, faceImg, Some fb)"
    and "eye_model P faceImg (eye_model_confidence P) = (eye_regions, eye_xxyy)"
    and "r \<in> set eye_regions"
    and "eye_classifier P r = 1"
  shows "fst (FullPipeline_classify e P x viz w) = Inr AWAKE \<and>
         open_eye_classify eye_regions (eye_classifier P) = map (eye_classifier P) eye_regions \<and>
         any (open_eye_classify eye_regions (eye_classifier P))"
proof -
  have ne: "eye_regions \<noteq> []" using assms(5) by auto
  have an: "any (open_eye_classify eye_regions (eye_classifier P))"
    unfolding any_iff open_eye_classify_def using assms(5,6) by force
  have "fst (FullPipeline_classify e P x viz w) = Inr AWAKE"
    unfolding FullPipeline_classify_def
    using assms(1-4) ne an
    by (simp add: Let_def case_visualize_returns detect_hands_def)
  then show ?thesis using an by (simp add: open_eye_classify_def)
qed

theorem full_any_open_eye_witness:
  "open_eye_classify [six_img, small_img] (eye_classifier open_eye_pipeline) = [0, 1] \<and>
   fst (FullPipeline_classify (demo_env False) open_eye_pipeline (Array 0) (Some True) demo_world) = Inr AWAKE \<and>
   fst (FullPipeline_classify (demo_env False) open_eye_pipeline (Array 0) None demo_world) = Inr AWAKE"
  using full_any_open_eye [of "demo_env False" "Array 0" demo_world 0 demo_world open_eye_pipeline
      "Some small_img" "(0, 2, 0, 1)" "[six_img, small_img]" "[(0, 1, 0, 1), (1, 2, 0, 1)]" small_img "Some True"]
    full_any_open_eye [of "demo_env False" "Array 0" demo_world 0 demo_world open_eye_pipeline
      "Some small_img" "(0, 2, 0, 1)" "[six_img, small_img]" "[(0, 1, 0, 1), (1, 2, 0, 1)]" small_img None]
  by (simp add: read_image_def seat_is_empty_def demo_env_def open_eye_pipeline_def
      small_img_def six_img_def)

text \<open>
  C4. In the pipeline without the eye stage, on a seat that is not empty, with or without
  \<open>viz\<close>: a detected face classified as 0 gives AWAKE, a detected face classified as 1
  gives SLEEPING, and no detected face gives the default SLEEPING. The pipeline holds a
  face detector and a face classifier only, so no hand detector is there to be asked.
\<close>

theorem noeye_decision:
  assumes "read_image e x w = (Some a, w1)"
    and "\<not> seat_is_empty e x (heap w1 a)"
  shows "(face_detection P (heap w1 a) = (True, faceImg, face_xxyy) \<and> face_classification P faceImg = 0
            \<longrightarrow> fst (NoEyePipeline_classify e P x viz w) = Inr AWAKE) \<and>
         (face_detection P (heap w1 a) = (True, faceImg, face_xxyy) \<and> face_classification P faceImg = 1
            \<longrightarrow> fst (NoEyePipeline_classify e P x viz w) = Inr SLEEPING) \<and>
         (face_detection P (heap w1 a) = (False, faceImg, face_xxyy)
            \<longrightarrow> fst (NoEyePipeline_classify e P x viz w) = Inr SLEEPING)"
  unfolding NoEyePipeline_classify_def
  using assms by (simp add: Let_def case_visualize_returns)

theorem noeye_decision_witness:
  "fst (NoEyePipeline_classify (demo_env False) awake_face_pipeline (Array 0) (Some True) demo_world) = Inr AWAKE \<and>
   fst (NoEyePipeline_classify (demo_env False) sleeping_face_pipeline (Array 0) None demo_world) = Inr SLEEPING \<and>
   fst (NoEyePipeline_classify (demo_env False) no_face_pipeline (Array 0) (Some False) demo_world) = Inr SLEEPING"
  using noeye_decision [of "demo_env False" "Array 0" demo_world 0 demo_world awake_face_pipeline
      "Some small_img" "Some (0, 2, 0, 1)" "Some True"]
    noeye_decision [of "demo_env False" "Array 0" demo_world 0 demo_world sleeping_face_pipeline
      "Some small_img" "Some (0, 2, 0, 1)" None]
    noeye_decision [of "demo_env False" "Array 0" demo_world 0 demo_world no_face_pipeline
      None None "Some False"]
  by (simp add: read_image_def seat_is_empty_def demo_env_def awake_face_pipeline_def
      sleeping_face_pipeline_def no_face_pipeline_def)

text \<open>
  C5. In the full pipeline, on a seat that is not empty where no face is detected,
  \<open>classify\<close> returns AWAKE when the hand detector finds a hand in the cropped image and
  SLEEPING when it finds none, with or without \<open>viz\<close>. The cropped image is the top four
  fifths of the rows, and of these the columns from the first to the third quarter.
\<close>

theorem full_no_face_hands:
  assumes "read_image e x w = (Some a, w1)"
    and "\<not> seat_is_empty e x (heap w1 a)"
    and "face_model P (heap w1 a) = (False, faceImg, face_xxyy)"
  shows "fst (FullPipeline_classify e P x viz w) =
           Inr (if hand_model P (crop_horizontally (crop_vertically (heap w1 a))) \<noteq> []
                then AWAKE else SLEEPING) \<and>
         rows (crop_horizontally (crop_vertically (heap w1 a))) =
           map (\<lambda>r. take ((3 * width (heap w1 a)) div 4 - width (heap w1 a) div 4)
                       (drop (width (heap w1 a) div 4) r))
             (take ((4 * height (heap w1 a)) div 5) (rows (heap w1 a)))"
proof -
  have "fst (FullPipeline_classify e P x viz w) =
           Inr (if hand_model P (crop_horizontally (crop_vertically (heap w1 a))) \<noteq> []
                then AWAKE else SLEEPING)"
    unfolding FullPipeline_classify_def
    using assms by (simp add: Let_def case_visualize_returns detect_hands_def)
  then show ?thesis using hand_window [of "heap w1 a"] by simp
qed

theorem full_no_face_hands_witness:
  "fst (FullPipeline_classify (demo_env False) hands_pipeline (Array 0) (Some True) demo_world) = Inr AWAKE \<and>
   fst (FullPipeline_classify (demo_env False) no_hands_pipeline (Array 0) (Some False) demo_world)
     = Inr SLEEPING"
  using full_no_face_hands [of "demo_env False" "Array 0" demo_world 0 demo_world hands_pipeline
      None None "Some True"]
    full_no_face_hands [of "demo_env False" "Array 0" demo_world 0 demo_world no_hands_pipeline
      None None "Some False"]
  by (simp add: read_image_def seat_is_empty_def demo_env_def hands_pipeline_def no_hands_pipeline_def)

text \<open>
  C9. When the path does not decode to an image, \<open>cv2.imread\<close> gives \<open>None\<close> and
  \<open>classify\<close> of either pipeline raises the assertion error "Could not load the image.":
  no state is returned, and the world is as before the call.
\<close>

theorem undecodable_path_raises:
  assumes "cv2_imread e p = None"
  shows "FullPipeline_classify e P (Path p) viz w = (Inl (AssertionError ''Could not load the image.''), w) \<and>
         NoEyePipeline_classify e Q (Path p) viz w = (Inl (AssertionError ''Could not load the image.''), w)"
  using assms by (simp add: FullPipeline_classify_def NoEyePipeline_classify_def read_image_def)

theorem undecodable_path_raises_witness:
  "cv2_imread (demo_env False) ''missing.jpg'' = None \<and>
   fst (FullPipeline_classify (demo_env False) hands_pipeline (Path ''missing.jpg'') None demo_world)
     = Inl (AssertionError ''Could not load the image.'') \<and>
   fst (NoEyePipeline_classify (demo_env False) no_face_pipeline (Path ''missing.jpg'') None demo_world)
     = Inl (AssertionError ''Could not load the image.'')"
  using undecodable_path_raises [of "demo_env False" "''missing.jpg''" hands_pipeline None demo_world
      no_face_pipeline]
  by (simp add: demo_env_def)

section \<open>The viz flag\<close>

lemma full_default: "FullPipeline_classify e P x None w = FullPipeline_classify e P x (Some False) w"
  by (simp add: FullPipeline_classify_def)

lemma noeye_default: "NoEyePipeline_classify e Q x None w = NoEyePipeline_classify e Q x (Some True) w"
  by (simp add: NoEyePipeline_classify_def)

lemma full_no_viz_files: "files (snd (FullPipeline_classify e P x (Some False) w)) = files w"
proof (cases "read_image e x w")
  case (Pair r w1)
  then have f: "files w1 = files w" by (rule read_image_files)
  show ?thesis
    unfolding FullPipeline_classify_def using Pair f
    by (cases r) (simp_all add: Let_def split: prod.splits)
qed

lemma noeye_no_viz_files: "files (snd (NoEyePipeline_classify e Q x (Some False) w)) = files w"
proof (cases "read_image e x w")
  case (Pair r w1)
  then have f: "files w1 = files w" by (rule read_image_files)
  show ?thesis
    unfolding NoEyePipeline_classify_def using Pair f
    by (cases r) (simp_all add: Let_def split: prod.splits)
qed

lemma noeye_viz_files:
  assumes "read_image e x w = (Some a, w1)" and "''full_pipeline_eval'' \<in> set (dirs w)"
  shows "length (files (snd (NoEyePipeline_classify e Q x (Some True) w))) = Suc (length (files w))"
proof -
  have f: "files w1 = files w" using assms(1) by (rule read_image_files)
  have d: "''full_pipeline_eval'' \<in> set (dirs w1)"
    using assms(2) read_image_dirs [OF assms(1)] by simp
  obtain fd fi fx where fdet: "face_detection Q (heap w1 a) = (fd, fi, fx)"
    by (cases "face_detection Q (heap w1 a)")
  have "length (files (snd (visualize e a fx [] [] label trace w1))) = Suc (length (files w))"
    for label trace
    using visualize_writes [OF _ d, of fx "[]" e a "[]" label trace] f by simp
  then show ?thesis
    unfolding NoEyePipeline_classify_def
    using assms(1) fdet by (simp add: Let_def snd_case_visualize)
qed

text \<open>
  Without \<open>viz\<close> an empty seat gives NOTTHERE in both pipelines, whatever the later
  stages would find.
\<close>

lemma empty_seat_no_viz:
  assumes "read_image e x w = (Some a, w1)" and "seat_is_empty e x (heap w1 a)"
  shows "fst (FullPipeline_classify e P x (Some False) w) = Inr NOTTHERE"
    and "fst (FullPipeline_classify e P x None w) = Inr NOTTHERE"
    and "fst (NoEyePipeline_classify e Q x (Some False) w) = Inr NOTTHERE"
  using assms by (simp_all add: FullPipeline_classify_def NoEyePipeline_classify_def)

text \<open>
  C1, at an input where the code departs from it. The seat is empty, \<open>viz\<close> is set, and a
  face is detected: with an open eye the full pipeline returns AWAKE, and with a face
  classified as awake so does the pipeline without the eye stage. The state NOTTHERE set
  by the first stage is overwritten by the later ones.
\<close>

theorem empty_seat_viz_awake:
  "seat_is_empty (demo_env True) (Array 0) (heap demo_world 0) \<and>
   fst (FullPipeline_classify (demo_env True) open_eye_pipeline (Array 0) (Some True) demo_world) = Inr AWAKE \<and>
   fst (NoEyePipeline_classify (demo_env True) awake_face_pipeline (Array 0) (Some True) demo_world) = Inr AWAKE"
  by (simp add: FullPipeline_classify_def NoEyePipeline_classify_def read_image_def seat_is_empty_def
      demo_env_def open_eye_pipeline_def awake_face_pipeline_def Let_def case_visualize_returns
      open_eye_classify_def any_def detect_hands_def small_img_def six_img_def)

text \<open>
  C2, at an input where the code departs from it. The seat is empty, no face is detected
  and a hand is: the full pipeline returns AWAKE with \<open>viz\<close> and NOTTHERE without.
\<close>

theorem viz_changes_state:
  "seat_is_empty (demo_env True) (Array 0) (heap demo_world 0) \<and>
   fst (FullPipeline_classify (demo_env True) hands_pipeline (Array 0) (Some True) demo_world) = Inr AWAKE \<and>
   fst (FullPipeline_classify (demo_env True) hands_pipeline (Array 0) (Some False) demo_world) = Inr NOTTHERE"
  by (simp add: FullPipeline_classify_def read_image_def seat_is_empty_def
      demo_env_def hands_pipeline_def Let_def case_visualize_returns detect_hands_def)

text \<open>On a seat that is not empty the flag does not change the state of the full pipeline.\<close>

lemma full_viz_same_state:
  assumes "read_image e x w = (Some a, w1)"
    and "\<not> seat_is_empty e x (heap w1 a)"
    and "face_model P (heap w1 a) = (fd, faceImg, fx)"
    and "eye_model P faceImg (eye_model_confidence P) = (eye_regions, eye_xxyy)"
    and "fx \<noteq> None \<or> eye_xxyy = []"
  shows "fst (FullPipeline_classify e P x (Some True) w) = fst (FullPipeline_classify e P x (Some False) w)"
  unfolding FullPipeline_classify_def
  using assms by (auto simp: Let_def case_visualize_returns detect_hands_def)

lemma noeye_viz_writes:
  assumes "read_image e x w = (Some a, w1)" and "''full_pipeline_eval'' \<in> set (dirs w)"
  shows "\<exists>f. files (snd (NoEyePipeline_classify e Q x (Some True) w)) = f # files w"
proof -
  have f: "files w1 = files w" using assms(1) by (rule read_image_files)
  have d: "''full_pipeline_eval'' \<in> set (dirs w1)"
    using assms(2) read_image_dirs [OF assms(1)] by simp
  obtain fd fi fx where fdet: "face_detection Q (heap w1 a) = (fd, fi, fx)"
    by (cases "face_detection Q (heap w1 a)")
  have "\<exists>f. files (snd (visualize e a fx [] [] label trace w1)) = f # files w"
    for label trace
    using visualize_writes_one [OF _ d, of fx "[]" e a "[]" label trace] f by simp
  then show ?thesis
    unfolding NoEyePipeline_classify_def
    using assms(1) fdet by (simp add: Let_def snd_case_visualize)
qed

lemma noeye_viz_no_dir:
  assumes "''full_pipeline_eval'' \<notin> set (dirs w)"
  shows "files (snd (NoEyePipeline_classify e Q x (Some True) w)) = files w"
proof (cases "read_image e x w")
  case (Pair r w1)
  then have f: "files w1 = files w" by (rule read_image_files)
  have d: "''full_pipeline_eval'' \<notin> set (dirs w1)"
    using assms read_image_dirs [OF Pair] by simp
  show ?thesis
  proof (cases r)
    case None
    then show ?thesis
      unfolding NoEyePipeline_classify_def using Pair f by simp
  next
    case (Some a)
    obtain fd fi fx where fdet: "face_detection Q (heap w1 a) = (fd, fi, fx)"
      by (cases "face_detection Q (heap w1 a)")
    have "files (snd (visualize e a fx [] [] label trace w1)) = files w" for label trace
      using visualize_no_dir [OF d, of e a fx "[]" "[]" label trace] f by simp
    then show ?thesis
      unfolding NoEyePipeline_classify_def
      using Pair Some fdet by (simp add: Let_def snd_case_visualize)
  qed
qed

lemma noeye_not_loaded_files:
  assumes "read_image e x w = (None, w1)"
  shows "files (snd (NoEyePipeline_classify e Q x viz w)) = files w"
  unfolding NoEyePipeline_classify_def
  using assms read_image_files [OF assms] by simp

text \<open>
  C6, as amended. In the full pipeline an omitted \<open>viz\<close> is false: \<open>classify\<close> with the
  image alone is \<open>classify\<close> with \<open>viz\<close> false, and it writes no file. In the pipeline
  without the eye stage an omitted \<open>viz\<close> is true: \<open>classify\<close> with the image alone is
  \<open>classify\<close> with \<open>viz\<close> true. It then writes one file when the image loads and the
  directory \<open>full_pipeline_eval\<close> exists, and none when the image does not load or the
  directory is missing. With \<open>viz\<close> given as false this pipeline writes no file.
\<close>

theorem viz_defaults:
  "FullPipeline_classify e P x None w = FullPipeline_classify e P x (Some False) w \<and>
   files (snd (FullPipeline_classify e P x None w)) = files w \<and>
   NoEyePipeline_classify e Q x None w = NoEyePipeline_classify e Q x (Some True) w \<and>
   (read_image e x w = (Some a, w1) \<and> ''full_pipeline_eval'' \<in> set (dirs w) \<longrightarrow>
      (\<exists>f. files (snd (NoEyePipeline_classify e Q x None w)) = f # files w)) \<and>
   (read_image e x w = (None, w1) \<longrightarrow> files (snd (NoEyePipeline_classify e Q x None w)) = files w) \<and>
   (''full_pipeline_eval'' \<notin> set (dirs w) \<longrightarrow>
      files (snd (NoEyePipeline_classify e Q x None w)) = files w) \<and>
   files (snd (NoEyePipeline_classify e Q x (Some False) w)) = files w"
proof (intro conjI impI)
  show "FullPipeline_classify e P x None w = FullPipeline_classify e P x (Some False) w"
    by (rule full_default)
  show "files (snd (FullPipeline_classify e P x None w)) = files w"
    by (simp only: full_default full_no_viz_files)
  show "NoEyePipeline_classify e Q x None w = NoEyePipeline_classify e Q x (Some True) w"
    by (rule noeye_default)
  show "files (snd (NoEyePipeline_classify e Q x (Some False) w)) = files w"
    by (rule noeye_no_viz_files)
next
  assume "read_image e x w = (Some a, w1) \<and> ''full_pipeline_eval'' \<in> set (dirs w)"
  then show "\<exists>f. files (snd (NoEyePipeline_classify e Q x None w)) = f # files w"
    using noeye_viz_writes [of e x w a w1 Q] by (simp only: noeye_default)
next
  assume "read_image e x w = (None, w1)"
  then show "files (snd (NoEyePipeline_classify e Q x None w)) = files w"
    by (rule noeye_not_loaded_files)
next
  assume "''full_pipeline_eval'' \<notin> set (dirs w)"
  then have "files (snd (NoEyePipeline_classify e Q x (Some True) w)) = files w"
    by (rule noeye_viz_no_dir)
  then show "files (snd (NoEyePipeline_classify e Q x None w)) = files w"
    by (simp only: noeye_default)
qed

theorem viz_defaults_witness:
  "length (files (snd (NoEyePipeline_classify (demo_env False) no_face_pipeline (Array 0) None
                         demo_world))) = 1 \<and>
   files (snd (NoEyePipeline_classify (demo_env False) no_face_pipeline (Array 0) None
                 (demo_world\<lparr>dirs := []\<rparr>))) = [] \<and>
   files (snd (NoEyePipeline_classify (demo_env False) no_face_pipeline (Path ''missing.jpg'') None
                 demo_world)) = [] \<and>
   files (snd (FullPipeline_classify (demo_env False) hands_pipeline (Array 0) None demo_world)) = []"
proof -
  have r: "read_image (demo_env False) (Array 0) demo_world = (Some 0, demo_world)"
    by (simp add: read_image_def)
  have d: "''full_pipeline_eval'' \<in> set (dirs demo_world)" by (simp add: demo_world_def)
  have m: "read_image (demo_env False) (Path ''missing.jpg'') demo_world = (None, demo_world)"
    by (simp add: read_image_def demo_env_def)
  have n: "''full_pipeline_eval'' \<notin> set (dirs (demo_world\<lparr>dirs := []\<rparr>))" by simp
  have f: "files demo_world = []" "files (demo_world\<lparr>dirs := []\<rparr>) = []"
    by (simp_all add: demo_world_def)
  show ?thesis
    using viz_defaults [of "demo_env False" hands_pipeline "Array 0" demo_world no_face_pipeline 0 demo_world]
      viz_defaults [of "demo_env False" hands_pipeline "Array 0" "demo_world\<lparr>dirs := []\<rparr>"
        no_face_pipeline 0 demo_world]
      viz_defaults [of "demo_env False" hands_pipeline "Path ''missing.jpg''" demo_world
        no_face_pipeline 0 demo_world]
      r d m n f
    by auto
qed

text \<open>
  The claim as first stated fails for the pipeline without the eye stage: called with the
  image alone, on a seat that is not empty and without a face, it writes a file, and
  called with \<open>viz\<close> false it writes none.
\<close>

theorem noeye_default_writes_file:
  "length (files (snd (NoEyePipeline_classify (demo_env False) no_face_pipeline (Array 0) None demo_world))) = 1 \<and>
   length (files (snd (NoEyePipeline_classify (demo_env False) no_face_pipeline (Array 0) (Some False)
                         demo_world))) = 0 \<and>
   files demo_world = []"
proof -
  have d: "''full_pipeline_eval'' \<in> set (dirs demo_world)" by (simp add: demo_world_def)
  have r: "read_image (demo_env False) (Array 0) demo_world = (Some 0, demo_world)"
    by (simp add: read_image_def)
  have "length (files (snd (NoEyePipeline_classify (demo_env False) no_face_pipeline (Array 0) None
                              demo_world))) = 1"
    using noeye_viz_files [OF r d, of no_face_pipeline]
    by (simp add: noeye_default demo_world_def)
  moreover have "files demo_world = []" by (simp add: demo_world_def)
  ultimately show ?thesis by (simp add: noeye_no_viz_files)
qed

end
